theory Spec2Isabelle
  imports Main "HOL-Library.Char_ord" "HOL-Library.List_Lexorder"
begin

section \<open>Pallas TPU primitives (jax/\_src/pallas/mosaic/primitives.py)\<close>

text \<open>
  The module registers nine primitives, each with an abstract-evaluation rule, and a few
  Python wrappers that bind them. The embedding below follows the module top to bottom.
  A Python exception is a value of \<open>py_error\<close>; a function that binds primitives threads
  the list of equations emitted so far.
\<close>

subsection \<open>Abstract values, exceptions\<close>

datatype dtype = int8 | int16 | int32 | int64 | uint32 | bfloat16 | float32 | bool_

text \<open>
  tpu\_core.SemaphoreType is declared in jax/\_src/pallas/mosaic/core.py, which is not
  among the sources; the module reads only its member REGULAR. The other two members
  stand for every kind that is not REGULAR.
\<close>

datatype SemaphoreType = REGULAR | DMA | BARRIER

text \<open>
  The abstract values the rules of this module can meet: an array descriptor
  (jax\_core.ShapedArray), a semaphore (tpu\_core.AbstractSemaphore) and a buffer
  reference (a shape and an element type as well). Shapes hold Python integers.
\<close>

datatype aval =
    ShapedArray "int list" dtype
  | AbstractSemaphore SemaphoreType
  | AbstractRef "int list" dtype

text \<open>An f-string before it is rendered: literal text and the values formatted into it.\<close>

datatype fragment = Text string | Fmt aval

datatype py_error =
    ValueError "fragment list"
  | TypeError "fragment list"
  | AttributeError "fragment list"
  | IndexError "fragment list"
  | OtherError "fragment list"

fun is_ValueError :: "py_error \<Rightarrow> bool" where
  "is_ValueError (ValueError m) = True"
| "is_ValueError e = False"

fun is_TypeError :: "py_error \<Rightarrow> bool" where
  "is_TypeError (TypeError m) = True"
| "is_TypeError e = False"

text \<open>The attribute reads \<open>x.shape\<close> and \<open>x.dtype\<close>: a semaphore has neither.\<close>

fun aval_shape :: "aval \<Rightarrow> py_error + int list" where
  "aval_shape (ShapedArray s d) = Inr s"
| "aval_shape (AbstractRef s d) = Inr s"
| "aval_shape (AbstractSemaphore k) =
     Inl (AttributeError [Text ''AbstractSemaphore has no attribute shape''])"

fun aval_dtype :: "aval \<Rightarrow> py_error + dtype" where
  "aval_dtype (ShapedArray s d) = Inr d"
| "aval_dtype (AbstractRef s d) = Inr d"
| "aval_dtype (AbstractSemaphore k) =
     Inl (AttributeError [Text ''AbstractSemaphore has no attribute dtype''])"

text \<open>
  A traced operand: an identity and the abstract value the tracer carries.
  \<open>get_aval\<close> is what bind hands to the abstract-evaluation rule.
\<close>

datatype val = Tracer nat aval

fun ident :: "val \<Rightarrow> nat" where
  "ident (Tracer i a) = i"

fun get_aval :: "val \<Rightarrow> aval" where
  "get_aval (Tracer i a) = a"

subsection \<open>Effects and sub-programs\<close>

text \<open>
  effects.JaxprInputEffect carries \<open>input_index\<close>, a Python integer; every other effect
  class is \<open>Effect\<close>. The first field names the concrete class (read, write, ...).
\<close>

datatype effect = JaxprInputEffect string int | Effect string

fun is_JaxprInputEffect :: "effect \<Rightarrow> bool" where
  "is_JaxprInputEffect (JaxprInputEffect c i) = True"
| "is_JaxprInputEffect (Effect c) = False"

fun input_index :: "effect \<Rightarrow> int" where
  "input_index (JaxprInputEffect c i) = i"
| "input_index (Effect c) = 0"

text \<open>Of a traced sub-program the module reads \<open>effects\<close> and \<open>constvars\<close> only.\<close>

record jaxpr =
  constvars :: "aval list"
  invars :: "aval list"
  effects :: "effect set"

subsection \<open>Pytrees\<close>

text \<open>
  Modelled from the spec: tree\_util.tree\_flatten and tree\_unflatten
  (jax/\_src/tree\_util.py is not among the sources). The spec asks for packing a nested
  structure of operands into a flat sequence plus a structural descriptor, and for
  reversing that packing. A tuple, None, a dict (its keys in sorted order) and a
  registered class (with its static data) are nodes; everything else is a leaf.
\<close>

datatype 'x node_kind = TupleNode | NoneNode | DictNode "string list" | CustomNode 'x

datatype ('a, 'x) pytree = Leaf 'a | Node "'x node_kind" "('a, 'x) pytree list"

datatype 'x treedef = LeafDef | NodeDef "'x node_kind" "'x treedef list"

fun tree_leaves :: "('a, 'x) pytree \<Rightarrow> 'a list" where
  "tree_leaves (Leaf a) = [a]"
| "tree_leaves (Node k ts) = concat (map tree_leaves ts)"

fun tree_structure :: "('a, 'x) pytree \<Rightarrow> 'x treedef" where
  "tree_structure (Leaf a) = LeafDef"
| "tree_structure (Node k ts) = NodeDef k (map tree_structure ts)"

definition tree_flatten :: "('a, 'x) pytree \<Rightarrow> 'a list \<times> 'x treedef" where
  "tree_flatten t = (tree_leaves t, tree_structure t)"

text \<open>Rebuilding consumes the leaves from the left; what is left over is returned.\<close>

fun unflatten_from :: "'x treedef \<Rightarrow> 'a list \<Rightarrow> (('a, 'x) pytree \<times> 'a list) option"
  and unflatten_list :: "'x treedef list \<Rightarrow> 'a list \<Rightarrow> (('a, 'x) pytree list \<times> 'a list) option"
where
  "unflatten_from LeafDef [] = None"
| "unflatten_from LeafDef (x # xs) = Some (Leaf x, xs)"
| "unflatten_from (NodeDef k ds) xs =
     (case unflatten_list ds xs of
        None \<Rightarrow> None
      | Some (ts, r) \<Rightarrow> Some (Node k ts, r))"
| "unflatten_list [] xs = Some ([], xs)"
| "unflatten_list (d # ds) xs =
     (case unflatten_from d xs of
        None \<Rightarrow> None
      | Some (t, r) \<Rightarrow>
          (case unflatten_list ds r of
             None \<Rightarrow> None
           | Some (ts, r') \<Rightarrow> Some (t # ts, r')))"

definition tree_unflatten :: "'x treedef \<Rightarrow> 'a list \<Rightarrow> py_error + ('a, 'x) pytree" where
  "tree_unflatten d xs =
     (case unflatten_from d xs of
        Some (t, []) \<Rightarrow> Inr t
      | Some (t, y # ys) \<Rightarrow> Inl (ValueError [Text ''Too many leaves for PyTreeDef''])
      | None \<Rightarrow> Inl (ValueError [Text ''Too few leaves for PyTreeDef'']))"

subsection \<open>The registry: primitives, parameters, equations\<close>

datatype primitive =
    repeat_p | trace_start_p | trace_stop_p | run_scoped_p
  | semaphore_signal_p | semaphore_wait_p | dma_start_p | dma_wait_p | device_id_p

text \<open>The keyword parameters the wrappers of this module pass to bind.\<close>

datatype 'x params =
    RepeatParams int int
  | TraceStartParams string int
  | NoParams
  | JaxprParams jaxpr
  | HasDeviceIdParams bool
  | TreeParams "'x treedef"

record 'x eqn =
  eqn_primitive :: primitive
  eqn_invars :: "val list"
  eqn_params :: "'x params"
  eqn_outvars :: "aval list"
  eqn_effects :: "effect set"

text \<open>
  A function that binds primitives takes the equations emitted so far and returns its
  result, or the exception it raised, together with the equations emitted since.
\<close>

type_synonym ('r, 'x) tracing = "'x eqn list \<Rightarrow> (py_error + 'r) \<times> 'x eqn list"

subsection \<open>The abstract-evaluation rules\<close>

text \<open>
  \<open>shape = list(x.shape); shape[axis] *= repeats\<close>: a Python list index may be
  negative and raises IndexError out of range.
\<close>

definition repeat_abstract_eval :: "aval \<Rightarrow> int \<Rightarrow> int \<Rightarrow> py_error + aval" where
  "repeat_abstract_eval x repeats axis =
     (case aval_shape x of
        Inl e \<Rightarrow> Inl e
      | Inr shape \<Rightarrow>
          (let n = int (length shape);
               j = (if axis < 0 then axis + n else axis)
           in if 0 \<le> j \<and> j < n
              then (case aval_dtype x of
                      Inl e \<Rightarrow> Inl e
                    | Inr dt \<Rightarrow>
                        Inr (ShapedArray (shape[nat j := shape ! nat j * repeats]) dt))
              else Inl (IndexError [Text ''list index out of range''])))"

definition trace_start_abstract_eval :: "string \<Rightarrow> int \<Rightarrow> aval list" where
  "trace_start_abstract_eval message level = []"

definition trace_stop_abstract_eval :: "aval list" where
  "trace_stop_abstract_eval = []"

definition run_scoped_abstract_eval :: "aval list \<Rightarrow> jaxpr \<Rightarrow> aval list \<times> effect set" where
  "run_scoped_abstract_eval args jaxpr =
     (let nonlocal_effects =
            {eff \<in> effects jaxpr.
               \<not> (is_JaxprInputEffect eff
                    \<and> input_index eff \<ge> int (length (constvars jaxpr)))}
      in ([], nonlocal_effects))"

fun is_AbstractSemaphore :: "aval \<Rightarrow> bool" where
  "is_AbstractSemaphore (AbstractSemaphore k) = True"
| "is_AbstractSemaphore a = False"

fun sem_type :: "aval \<Rightarrow> SemaphoreType" where
  "sem_type (AbstractSemaphore k) = k"
| "sem_type a = REGULAR"

text \<open>
  \<open>sem_type\<close> is read only after the isinstance check has passed. The unpacking
  \<open>(device_id,) = args\<close> raises ValueError unless exactly one operand is left.
\<close>

definition semaphore_signal_abstract_eval ::
    "aval \<Rightarrow> aval \<Rightarrow> aval list \<Rightarrow> bool \<Rightarrow> py_error + aval list" where
  "semaphore_signal_abstract_eval sem_aval v args has_device_id =
     (if \<not> is_AbstractSemaphore sem_aval
      then Inl (ValueError [Text ''Cannot signal on a non-semaphore value: '', Fmt sem_aval])
      else if sem_type sem_aval \<noteq> REGULAR
      then Inl (ValueError [Text ''Must signal a REGULAR semaphore.''])
      else (case aval_dtype v of
              Inl e \<Rightarrow> Inl e
            | Inr d \<Rightarrow>
                if d \<noteq> int32 then Inl (ValueError [Text ''Must signal an int32 value.''])
                else if has_device_id
                then (case args of
                        [] \<Rightarrow> Inl (ValueError
                                 [Text ''not enough values to unpack (expected 1, got 0)''])
                      | [device_id] \<Rightarrow>
                          (case aval_dtype device_id of
                             Inl e \<Rightarrow> Inl e
                           | Inr d' \<Rightarrow>
                               if d' \<noteq> int32
                               then Inl (ValueError
                                      [Text ''`device_id` must be an int32 value.''])
                               else Inr [])
                      | _ \<Rightarrow> Inl (ValueError
                                 [Text ''too many values to unpack (expected 1)'']))
                else Inr []))"

definition semaphore_wait_abstract_eval :: "aval \<Rightarrow> aval \<Rightarrow> py_error + aval list" where
  "semaphore_wait_abstract_eval sem_aval v =
     (if \<not> is_AbstractSemaphore sem_aval
      then Inl (ValueError [Text ''Cannot wait on a non-semaphore value: '', Fmt sem_aval])
      else if sem_type sem_aval \<noteq> REGULAR
      then Inl (ValueError [Text ''Must wait a REGULAR semaphore.''])
      else (case aval_dtype v of
              Inl e \<Rightarrow> Inl e
            | Inr d \<Rightarrow>
                if d \<noteq> int32 then Inl (ValueError [Text ''Must signal an int32 value.''])
                else Inr []))"

definition dma_start_abstract_eval :: "aval list \<Rightarrow> 'x treedef \<Rightarrow> aval list" where
  "dma_start_abstract_eval args tree = []"

definition dma_wait_abstract_eval :: "aval list \<Rightarrow> 'x treedef \<Rightarrow> aval list" where
  "dma_wait_abstract_eval args tree = []"

definition device_id_abstract_eval :: aval where
  "device_id_abstract_eval = ShapedArray [] int32"

text \<open>
  The rule registered for each primitive, called as Python calls it: the operands
  positionally, the parameters by keyword. A rule registered with def\_abstract\_eval
  declares no effects; run\_scoped's is registered with def\_effectful\_abstract\_eval and
  returns its own. A call that does not fit the rule's signature is a TypeError. The
  result of a primitive without multiple\_results (repeat, device\_id) is the one-element
  list.
\<close>

definition no_effects :: "effect set" where
  "no_effects = {}"

definition signature_mismatch :: py_error where
  "signature_mismatch = TypeError [Text ''arguments do not match the signature of the rule'']"

definition abstract_eval ::
    "primitive \<Rightarrow> aval list \<Rightarrow> 'x params \<Rightarrow> py_error + aval list \<times> effect set" where
  "abstract_eval p args ps =
     (case p of
        repeat_p \<Rightarrow>
          (case (args, ps) of
             ([x], RepeatParams repeats axis) \<Rightarrow>
               (case repeat_abstract_eval x repeats axis of
                  Inl e \<Rightarrow> Inl e
                | Inr a \<Rightarrow> Inr ([a], no_effects))
           | _ \<Rightarrow> Inl signature_mismatch)
      | trace_start_p \<Rightarrow>
          (case (args, ps) of
             ([], TraceStartParams message level) \<Rightarrow>
               Inr (trace_start_abstract_eval message level, no_effects)
           | _ \<Rightarrow> Inl signature_mismatch)
      | trace_stop_p \<Rightarrow>
          (case (args, ps) of
             ([], NoParams) \<Rightarrow> Inr (trace_stop_abstract_eval, no_effects)
           | _ \<Rightarrow> Inl signature_mismatch)
      | run_scoped_p \<Rightarrow>
          (case ps of
             JaxprParams jaxpr \<Rightarrow> Inr (run_scoped_abstract_eval args jaxpr)
           | _ \<Rightarrow> Inl signature_mismatch)
      | semaphore_signal_p \<Rightarrow>
          (case (args, ps) of
             (sem_aval # v # rest, HasDeviceIdParams has_device_id) \<Rightarrow>
               (case semaphore_signal_abstract_eval sem_aval v rest has_device_id of
                  Inl e \<Rightarrow> Inl e
                | Inr outs \<Rightarrow> Inr (outs, no_effects))
           | _ \<Rightarrow> Inl signature_mismatch)
      | semaphore_wait_p \<Rightarrow>
          (case (args, ps) of
             ([sem_aval, v], NoParams) \<Rightarrow>
               (case semaphore_wait_abstract_eval sem_aval v of
                  Inl e \<Rightarrow> Inl e
                | Inr outs \<Rightarrow> Inr (outs, no_effects))
           | _ \<Rightarrow> Inl signature_mismatch)
      | dma_start_p \<Rightarrow>
          (case ps of
             TreeParams tree \<Rightarrow> Inr (dma_start_abstract_eval args tree, no_effects)
           | _ \<Rightarrow> Inl signature_mismatch)
      | dma_wait_p \<Rightarrow>
          (case ps of
             TreeParams tree \<Rightarrow> Inr (dma_wait_abstract_eval args tree, no_effects)
           | _ \<Rightarrow> Inl signature_mismatch)
      | device_id_p \<Rightarrow>
          (case (args, ps) of
             ([], NoParams) \<Rightarrow> Inr ([device_id_abstract_eval], no_effects)
           | _ \<Rightarrow> Inl signature_mismatch))"

text \<open>
  Modelled from the spec: Primitive.bind (jax/\_src/core.py is not among the sources).
  The spec's registry contract: bind looks up the rule of the primitive, calls it with
  the operands' abstract values and the static parameters, and returns the result(s); a
  failure of the rule surfaces at the call, before anything is recorded. On success the
  operation joins the program being traced, with the effects the rule declared. Results
  are given by their abstract values.
\<close>

definition bind :: "primitive \<Rightarrow> val list \<Rightarrow> 'x params \<Rightarrow> (aval list, 'x) tracing" where
  "bind p args ps st =
     (case abstract_eval p (map get_aval args) ps of
        Inl e \<Rightarrow> (Inl e, st)
      | Inr (outs, effs) \<Rightarrow>
          (Inr outs,
           st @ [\<lparr>eqn_primitive = p, eqn_invars = args, eqn_params = ps,
                  eqn_outvars = outs, eqn_effects = effs\<rparr>]))"

subsection \<open>The wrappers\<close>

definition repeat :: "val \<Rightarrow> int \<Rightarrow> int \<Rightarrow> (aval list, 'x) tracing" where
  "repeat x repeats axis = bind repeat_p [x] (RepeatParams repeats axis)"

text \<open>
  \<open>trace\<close> is a generator under contextlib.contextmanager: the code before the yield
  runs on entering the with-block, the code after it when the block is left. An
  exception of the block is thrown into the generator at the yield; \<open>trace\<close> has no
  try/finally around the yield, so the exception leaves the generator at once and the
  code after the yield does not run. \<open>contextmanager enter leave body\<close> is the
  with-statement over such a generator: \<open>enter\<close> is the code before the yield,
  \<open>leave\<close> the code after it.
\<close>

definition contextmanager ::
    "('r, 'x) tracing \<Rightarrow> ('s, 'x) tracing \<Rightarrow> ('b, 'x) tracing \<Rightarrow> ('b, 'x) tracing" where
  "contextmanager enter leave body st =
     (case enter st of
        (Inl e, st1) \<Rightarrow> (Inl e, st1)
      | (Inr u, st1) \<Rightarrow>
          (case body st1 of
             (Inl e, st2) \<Rightarrow> (Inl e, st2)
           | (Inr r, st2) \<Rightarrow>
               (case leave st2 of
                  (Inl e, st3) \<Rightarrow> (Inl e, st3)
                | (Inr w, st3) \<Rightarrow> (Inr r, st3))))"

definition trace :: "string \<Rightarrow> int \<Rightarrow> ('b, 'x) tracing \<Rightarrow> ('b, 'x) tracing" where
  "trace message level =
     contextmanager (bind trace_start_p [] (TraceStartParams message level))
                    (bind trace_stop_p [] NoParams)"

text \<open>
  Modelled from the spec: the resource type specifications handed to run\_scoped and
  their \<open>get_aval\<close> (jax/\_src/pallas/mosaic/core.py is not among the sources): each
  specification yields the abstract value of the resource as if allocated, a semaphore
  of a kind or a buffer of a shape and element type.
\<close>

datatype type_spec = SemaphoreSpec SemaphoreType | MemorySpec "int list" dtype

fun spec_get_aval :: "type_spec \<Rightarrow> aval" where
  "spec_get_aval (SemaphoreSpec k) = AbstractSemaphore k"
| "spec_get_aval (MemorySpec s d) = AbstractRef s d"

text \<open>The keyword arguments as a pytree: a dict node, its keys sorted.\<close>

definition dict_node :: "(string \<times> ('a, 'x) pytree) list \<Rightarrow> ('a, 'x) pytree" where
  "dict_node kws = (let s = sort_key fst kws in Node (DictNode (map fst s)) (map snd s))"

text \<open>
  pe.trace\_to\_jaxpr\_dynamic belongs to the host tracing engine and is a parameter
  \<open>tr\<close>: from the function, the structure of its arguments and their abstract values
  it returns the sub-program, the abstract values of its results and the captured
  constants, or raises. The body is traced into a program of its own, so nothing joins
  the caller's equations before the bind.
\<close>

definition run_scoped ::
    "('f \<Rightarrow> 'x treedef \<Rightarrow> aval list \<Rightarrow> py_error + jaxpr \<times> aval list \<times> val list) \<Rightarrow>
     'f \<Rightarrow> (type_spec, 'x) pytree list \<Rightarrow> (string \<times> (type_spec, 'x) pytree) list \<Rightarrow>
     (unit, 'x) tracing" where
  "run_scoped tr f types kw_types st =
     (let (flat_types, in_tree) =
            tree_flatten (Node TupleNode [Node TupleNode types, dict_node kw_types]);
          avals = map spec_get_aval flat_types
      in case tr f in_tree avals of
           Inl e \<Rightarrow> (Inl e, st)
         | Inr (jaxpr, out_avals, consts) \<Rightarrow>
             (case bind run_scoped_p consts (JaxprParams jaxpr) st of
                (Inl e, st') \<Rightarrow> (Inl e, st')
              | (Inr outs, st') \<Rightarrow> (Inr (), st')))"

text \<open>
  jnp.asarray (jax.numpy) is not among the sources and is the parameter \<open>asarray\<close>
  of the two wrappers: from the increment (decrement) handed to the wrapper and the
  element type asked for it returns the operand to bind, or raises (as the conversion of
  a Python float that is NaN, infinite or beyond the integer range does), and it may add
  equations of its own to the trace.
\<close>

definition semaphore_signal ::
    "('n \<Rightarrow> dtype \<Rightarrow> (val, 'x) tracing) \<Rightarrow> val \<Rightarrow> 'n \<Rightarrow> val option \<Rightarrow>
     (unit, 'x) tracing" where
  "semaphore_signal asarray sem inc device_id st =
     (case asarray inc int32 st of
        (Inl e, st1) \<Rightarrow> (Inl e, st1)
      | (Inr inc', st1) \<Rightarrow>
          (let args = [sem, inc'];
               has_device_id = (device_id \<noteq> None);
               args = (case device_id of None \<Rightarrow> args | Some d \<Rightarrow> args @ [d])
           in case bind semaphore_signal_p args (HasDeviceIdParams has_device_id) st1 of
                (Inl e, st') \<Rightarrow> (Inl e, st')
              | (Inr outs, st') \<Rightarrow> (Inr (), st')))"

definition semaphore_wait ::
    "('n \<Rightarrow> dtype \<Rightarrow> (val, 'x) tracing) \<Rightarrow> val \<Rightarrow> 'n \<Rightarrow> (unit, 'x) tracing" where
  "semaphore_wait asarray sem dec st =
     (case asarray dec int32 st of
        (Inl e, st1) \<Rightarrow> (Inl e, st1)
      | (Inr dec', st1) \<Rightarrow>
          (case bind semaphore_wait_p [sem, dec'] NoParams st1 of
             (Inl e, st') \<Rightarrow> (Inl e, st')
           | (Inr outs, st') \<Rightarrow> (Inr (), st')))"

text \<open>
  Modelled from the spec: jnp.asarray on an operand that is already a traced array (the
  function is absent from the sources, and the spec asks only that the increment reach
  the primitive as a 32-bit integer value). A traced array has an identity, a shape and
  an element type and no value known while tracing; its conversion to the element type
  asked for keeps identity and shape and cannot raise. The equation the conversion adds
  to the trace is not recorded. Python scalars are outside this definition: their
  conversion depends on the value and can raise.
\<close>

datatype array = Array nat "int list" dtype

fun asarray_traced :: "array \<Rightarrow> dtype \<Rightarrow> (val, 'x) tracing" where
  "asarray_traced (Array i s d) dt st = (Inr (Tracer i (ShapedArray s dt)), st)"

record 'x DMAFuture =
  flat_args :: "val list"
  tree :: "'x treedef"

definition wait :: "'x DMAFuture \<Rightarrow> (unit, 'x) tracing" where
  "wait self st =
     (case bind dma_wait_p (flat_args self) (TreeParams (tree self)) st of
        (Inl e, st') \<Rightarrow> (Inl e, st')
      | (Inr outs, st') \<Rightarrow> (Inr (), st'))"

text \<open>The attribute read \<open>src_ref.shape\<close> on a traced operand.\<close>

definition val_shape :: "val \<Rightarrow> py_error + int list" where
  "val_shape v = aval_shape (get_aval v)"

definition py_None :: "('a, 'x) pytree" where
  "py_None = Node NoneNode []"

text \<open>
  indexing.NDIndexer.from\_indices\_shape (jax/\_src/pallas/indexing.py) is not among the
  sources and is the parameter \<open>from_indices_shape\<close>: from the raw index expressions
  and the shape of the reference it returns the region descriptor, itself a pytree over
  operands, or raises when the indices do not fit the shape.
\<close>

definition dma_start ::
    "('i \<Rightarrow> int list \<Rightarrow> py_error + (val, 'x) pytree) \<Rightarrow>
     val \<Rightarrow> 'i \<Rightarrow> val \<Rightarrow> 'i \<Rightarrow> val \<Rightarrow> ('x DMAFuture, 'x) tracing" where
  "dma_start from_indices_shape src_ref src_indices dst_ref dst_indices sem st =
     (case val_shape src_ref of
        Inl e \<Rightarrow> (Inl e, st)
      | Inr src_shape \<Rightarrow>
     (case from_indices_shape src_indices src_shape of
        Inl e \<Rightarrow> (Inl e, st)
      | Inr src_indexer \<Rightarrow>
     (case val_shape dst_ref of
        Inl e \<Rightarrow> (Inl e, st)
      | Inr dst_shape \<Rightarrow>
     (case from_indices_shape dst_indices dst_shape of
        Inl e \<Rightarrow> (Inl e, st)
      | Inr dst_indexer \<Rightarrow>
          (let args = Node TupleNode [Leaf src_ref, src_indexer, Leaf dst_ref, dst_indexer,
                                      Leaf sem, py_None, py_None];
               (flat_args, tree) = tree_flatten args
           in case bind dma_start_p flat_args (TreeParams tree) st of
                (Inl e, st') \<Rightarrow> (Inl e, st')
              | (Inr outs, st') \<Rightarrow>
                  (let (wait_args, tree) =
                         tree_flatten (Node TupleNode [Leaf sem, Leaf dst_ref, dst_indexer])
                   in (Inr \<lparr>flat_args = wait_args, tree = tree\<rparr>, st')))))))"


definition device_id :: "(aval list, 'x) tracing" where
  "device_id = bind device_id_p [] NoParams"

text \<open>
  Modelled from the spec: a region descriptor as the spec's data model has it, derived
  from the shape of a buffer reference and one index expression per dimension (an
  integer, a slice given by start and size, or a dynamic operand), the expressions valid
  for the shape. The dynamic operands are the leaves of the descriptor; the static
  expressions and the shape are the static data of its node.
\<close>

datatype index_expr = IntIndex int | SliceIndex int int | DynIndex val

datatype static_index = StaticInt int | StaticSlice int int | Dynamic

fun index_valid :: "index_expr \<Rightarrow> int \<Rightarrow> bool" where
  "index_valid (IntIndex i) d = (0 \<le> i \<and> i < d)"
| "index_valid (SliceIndex start n) d = (0 \<le> start \<and> 0 \<le> n \<and> start + n \<le> d)"
| "index_valid (DynIndex v) d = True"

fun static_part :: "index_expr \<Rightarrow> static_index" where
  "static_part (IntIndex i) = StaticInt i"
| "static_part (SliceIndex start n) = StaticSlice start n"
| "static_part (DynIndex v) = Dynamic"

fun dynamic_part :: "index_expr \<Rightarrow> val list" where
  "dynamic_part (DynIndex v) = [v]"
| "dynamic_part e = []"

definition NDIndexer_from_indices_shape ::
    "index_expr list \<Rightarrow> int list \<Rightarrow>
     py_error + (val, static_index list \<times> int list) pytree" where
  "NDIndexer_from_indices_shape indices shape =
     (if length indices = length shape \<and> list_all2 index_valid indices shape
      then Inr (Node (CustomNode (map static_part indices, shape))
                     (map Leaf (concat (map dynamic_part indices))))
      else Inl (ValueError [Text ''indices do not fit the shape of the reference'']))"

text \<open>How often a primitive occurs among emitted equations.\<close>

definition emitted :: "primitive \<Rightarrow> 'x eqn list \<Rightarrow> nat" where
  "emitted p st = length (filter (\<lambda>e. eqn_primitive e = p) st)"

section \<open>Properties\<close>

subsection \<open>Flattening and rebuilding\<close>

lemma unflatten_from_flatten:
  fixes t :: "('a, 'x) pytree"
  shows "unflatten_from (tree_structure t) (tree_leaves t @ r) = Some (t, r)"
proof (induction t arbitrary: r)
  case (Leaf a)
  show ?case by simp
next
  case (Node k ts)
  have "unflatten_list (map tree_structure ts) (concat (map tree_leaves ts) @ r) = Some (ts, r)"
    using Node.IH
  proof (induction ts arbitrary: r)
    case Nil
    show ?case by simp
  next
    case (Cons t ts)
    then show ?case by simp
  qed
  then show ?case by simp
qed

lemma tree_unflatten_flatten:
  "tree_unflatten (snd (tree_flatten t)) (fst (tree_flatten t)) = Inr t"
  using unflatten_from_flatten [of t "[]"]
  by (simp add: tree_flatten_def tree_unflatten_def)

subsection \<open>repeat\<close>

text \<open>
  Claim C8. For an abstract value \<open>x\<close> with a shape and an element type, and \<open>axis\<close>
  a valid dimension of \<open>x\<close> (a Python index: from \<open>-rank\<close> up to \<open>rank - 1\<close>, a
  negative one counting from the end), the abstract evaluation of repeat returns an array
  descriptor of the element type of \<open>x\<close> whose shape has the length of the shape of
  \<open>x\<close>, dimension \<open>axis\<close> multiplied by \<open>repeats\<close> and every other dimension
  unchanged. The witness is the case of shape (4, 5), repeats = 3, axis = 1, with the
  result shape (4, 15).
\<close>

theorem repeat_abstract_eval_shape:
  assumes "aval_shape x = Inr shp" and "aval_dtype x = Inr dt"
    and "- int (length shp) \<le> axis" and "axis < int (length shp)"
  shows "\<exists>shp'. repeat_abstract_eval x repeats axis = Inr (ShapedArray shp' dt)
           \<and> abstract_eval repeat_p [x] (RepeatParams repeats axis :: 'x params)
               = Inr ([ShapedArray shp' dt], {})
           \<and> length shp' = length shp
           \<and> (\<forall>i < length shp.
                 shp' ! i = (if int i = (if axis < 0 then axis + int (length shp) else axis)
                             then shp ! i * repeats else shp ! i))"
proof -
  define j where "j = (if axis < 0 then axis + int (length shp) else axis)"
  have j: "0 \<le> j" "j < int (length shp)"
    using assms(3,4) by (auto simp: j_def)
  let ?shp' = "shp[nat j := shp ! nat j * repeats]"
  have ev: "repeat_abstract_eval x repeats axis = Inr (ShapedArray ?shp' dt)"
    using assms(1,2) j by (simp add: repeat_abstract_eval_def j_def Let_def)
  have el: "\<forall>i < length shp. ?shp' ! i = (if int i = j then shp ! i * repeats else shp ! i)"
    using j by (auto simp: nth_list_update)
  show ?thesis
    using ev el by (auto simp: abstract_eval_def no_effects_def j_def)
qed

theorem repeat_abstract_eval_shape_witness:
  "repeat_abstract_eval (ShapedArray [4, 5] float32) 3 1 = Inr (ShapedArray [4, 15] float32)"
proof -
  obtain shp' where
    r: "repeat_abstract_eval (ShapedArray [4, 5] float32) 3 1 = Inr (ShapedArray shp' float32)"
    and len: "length shp' = length [4, 5 :: int]"
    and el: "\<forall>i < length [4, 5 :: int].
               shp' ! i = (if int i = (if (1::int) < 0 then 1 + int (length [4, 5 :: int]) else 1)
                           then [4, 5] ! i * 3 else [4, 5] ! i)"
    using repeat_abstract_eval_shape [of "ShapedArray [4, 5] float32" "[4, 5]" float32 1 3]
    by auto
  from el have "shp' ! 0 = 4" "shp' ! 1 = 15"
    by auto
  with len have "shp' = [4, 15]"
    by (cases shp'; cases "tl shp'") auto
  with r show ?thesis by simp
qed

subsection \<open>device\_id\<close>

text \<open>
  Claim C9. The abstract evaluation of device\_id yields a scalar (its shape is empty)
  of element type int32, and binding device\_id after any equations \<open>st\<close> succeeds with
  that result.
\<close>

theorem device_id_scalar_int32:
  "device_id_abstract_eval = ShapedArray [] int32
   \<and> aval_shape device_id_abstract_eval = Inr []
   \<and> aval_dtype device_id_abstract_eval = Inr int32
   \<and> device_id st = (Inr [ShapedArray [] int32],
        st @ [\<lparr>eqn_primitive = device_id_p, eqn_invars = [], eqn_params = NoParams,
                eqn_outvars = [ShapedArray [] int32], eqn_effects = {}\<rparr>])"
  by (simp add: device_id_abstract_eval_def device_id_def bind_def abstract_eval_def
      no_effects_def)

subsection \<open>The rules of dma\_start and dma\_wait\<close>

text \<open>
  Claim C10. For every operand list and every structural descriptor the rules of
  dma\_start and dma\_wait return the empty result list and declare no effects; they
  look at neither, so binding either primitive never raises, whatever the operands.
\<close>

theorem dma_abstract_eval_no_validation:
  "dma_start_abstract_eval args td = []
   \<and> dma_wait_abstract_eval args td = []
   \<and> abstract_eval dma_start_p args (TreeParams td) = Inr ([], {})
   \<and> abstract_eval dma_wait_p args (TreeParams td) = Inr ([], {})
   \<and> fst (bind dma_start_p operands (TreeParams td) st) = Inr []
   \<and> fst (bind dma_wait_p operands (TreeParams td) st) = Inr []"
  by (simp add: dma_start_abstract_eval_def dma_wait_abstract_eval_def bind_def
      abstract_eval_def no_effects_def)

subsection \<open>run\_scoped\<close>

lemma bind_run_scoped:
  "bind run_scoped_p consts (JaxprParams jaxpr) st =
     (Inr [],
      st @ [\<lparr>eqn_primitive = run_scoped_p, eqn_invars = consts, eqn_params = JaxprParams jaxpr,
             eqn_outvars = [],
             eqn_effects = snd (run_scoped_abstract_eval (map get_aval consts) jaxpr)\<rparr>])"
  by (simp add: bind_def abstract_eval_def run_scoped_abstract_eval_def)

lemma run_scoped_unfold:
  "run_scoped tr f types kw_types st =
     (case tr f (snd (tree_flatten (Node TupleNode [Node TupleNode types, dict_node kw_types])))
             (map spec_get_aval
                (fst (tree_flatten (Node TupleNode [Node TupleNode types, dict_node kw_types])))) of
        Inl e \<Rightarrow> (Inl e, st)
      | Inr (jaxpr, out_avals, consts) \<Rightarrow>
          (Inr (), st @ [\<lparr>eqn_primitive = run_scoped_p, eqn_invars = consts,
                          eqn_params = JaxprParams jaxpr, eqn_outvars = [],
                          eqn_effects = snd (run_scoped_abstract_eval (map get_aval consts) jaxpr)\<rparr>]))"
  by (simp add: run_scoped_def Let_def case_prod_beta bind_run_scoped split: sum.splits)

text \<open>
  Claim C1. When tracing the body yields the sub-program \<open>jaxpr\<close> and the captured
  constants \<open>consts\<close>, run\_scoped emits one run\_scoped equation over the constants,
  without results, whose effects are those the rule exposes: an effect of the
  sub-program is exposed exactly when it is not an input effect whose position is at or
  beyond the number of constant inputs. So an input effect is exposed exactly when the
  sub-program declares it and its position is below the constant count (captured
  constants kept, scope-local resources dropped), and an effect that is not an input
  effect is exposed exactly when the sub-program declares it.
\<close>

theorem run_scoped_exposed_effects:
  fixes types :: "(type_spec, 'x) pytree list"
  assumes tr: "tr f (snd (tree_flatten (Node TupleNode [Node TupleNode types, dict_node kw_types])))
                 (map spec_get_aval
                    (fst (tree_flatten (Node TupleNode [Node TupleNode types, dict_node kw_types]))))
               = Inr (jaxpr, out_avals, consts)"
  shows "\<exists>exposed.
      (\<forall>args. run_scoped_abstract_eval args jaxpr = ([], exposed))
    \<and> run_scoped tr f types kw_types st =
        (Inr (), st @ [\<lparr>eqn_primitive = run_scoped_p, eqn_invars = consts,
                        eqn_params = JaxprParams jaxpr, eqn_outvars = [],
                        eqn_effects = exposed\<rparr>])
    \<and> (\<forall>eff. eff \<in> exposed \<longleftrightarrow>
          eff \<in> effects jaxpr
          \<and> \<not> (is_JaxprInputEffect eff \<and> int (length (constvars jaxpr)) \<le> input_index eff))
    \<and> (\<forall>c i. JaxprInputEffect c i \<in> exposed \<longleftrightarrow>
          JaxprInputEffect c i \<in> effects jaxpr \<and> i < int (length (constvars jaxpr)))
    \<and> (\<forall>c. Effect c \<in> exposed \<longleftrightarrow> Effect c \<in> effects jaxpr)"
proof (intro exI conjI allI)
  let ?exposed = "snd (run_scoped_abstract_eval (map get_aval consts) jaxpr)"
  show "run_scoped_abstract_eval args jaxpr = ([], ?exposed)" for args
    by (simp add: run_scoped_abstract_eval_def)
  show "run_scoped tr f types kw_types st =
        (Inr (), st @ [\<lparr>eqn_primitive = run_scoped_p, eqn_invars = consts,
                        eqn_params = JaxprParams jaxpr, eqn_outvars = [],
                        eqn_effects = ?exposed\<rparr>])"
    by (simp add: run_scoped_unfold tr)
  show "eff \<in> ?exposed \<longleftrightarrow>
          eff \<in> effects jaxpr
          \<and> \<not> (is_JaxprInputEffect eff \<and> int (length (constvars jaxpr)) \<le> input_index eff)" for eff
    by (simp add: run_scoped_abstract_eval_def)
  show "JaxprInputEffect c i \<in> ?exposed \<longleftrightarrow>
          JaxprInputEffect c i \<in> effects jaxpr \<and> i < int (length (constvars jaxpr))" for c i
    by (auto simp add: run_scoped_abstract_eval_def)
  show "Effect c \<in> ?exposed \<longleftrightarrow> Effect c \<in> effects jaxpr" for c
    by (simp add: run_scoped_abstract_eval_def)
qed

theorem run_scoped_exposed_effects_witness:
  "run_scoped
     (\<lambda>f td avals. Inr (\<lparr>constvars = [AbstractRef [8] float32],
                           invars = [AbstractSemaphore REGULAR],
                           effects = {JaxprInputEffect ''write'' 0, JaxprInputEffect ''write'' 1,
                                      Effect ''debug''}\<rparr>,
                         [], [Tracer 0 (AbstractRef [8] float32)]))
     () [Leaf (SemaphoreSpec REGULAR)] [] ([] :: unit eqn list)
   = (Inr (), [\<lparr>eqn_primitive = run_scoped_p, eqn_invars = [Tracer 0 (AbstractRef [8] float32)],
                eqn_params = JaxprParams
                  \<lparr>constvars = [AbstractRef [8] float32],
                   invars = [AbstractSemaphore REGULAR],
                   effects = {JaxprInputEffect ''write'' 0, JaxprInputEffect ''write'' 1,
                              Effect ''debug''}\<rparr>,
                eqn_outvars = [],
                eqn_effects = {JaxprInputEffect ''write'' 0, Effect ''debug''}\<rparr>])"
proof -
  define j where "j = \<lparr>constvars = [AbstractRef [8] float32],
                   invars = [AbstractSemaphore REGULAR],
                   effects = {JaxprInputEffect ''write'' 0, JaxprInputEffect ''write'' 1,
                              Effect ''debug''}\<rparr>"
  define tr where "tr = (\<lambda>(f::unit) (td::unit treedef) (avals::aval list).
               (Inr (j, [], [Tracer 0 (AbstractRef [8] float32)]) :: py_error + jaxpr \<times> aval list \<times> val list))"
  have h: "tr () (snd (tree_flatten (Node TupleNode [Node TupleNode [Leaf (SemaphoreSpec REGULAR)], dict_node []])))
                 (map spec_get_aval
                    (fst (tree_flatten (Node TupleNode [Node TupleNode [Leaf (SemaphoreSpec REGULAR)], dict_node []]))))
               = Inr (j, [], [Tracer 0 (AbstractRef [8] float32)])"
    by (simp add: tr_def)
  obtain exposed where
    run: "run_scoped tr () [Leaf (SemaphoreSpec REGULAR)] [] ([] :: unit eqn list) =
        (Inr (), [] @ [\<lparr>eqn_primitive = run_scoped_p, eqn_invars = [Tracer 0 (AbstractRef [8] float32)],
                        eqn_params = JaxprParams j, eqn_outvars = [],
                        eqn_effects = exposed\<rparr>])"
    and mem: "\<forall>eff. eff \<in> exposed \<longleftrightarrow>
          eff \<in> effects j
          \<and> \<not> (is_JaxprInputEffect eff \<and> int (length (constvars j)) \<le> input_index eff)"
    using run_scoped_exposed_effects
      [where tr = tr and f = "()" and types = "[Leaf (SemaphoreSpec REGULAR)]"
         and kw_types = "[]" and st = "[]", OF h]
    by (elim exE conjE)
  have "x \<in> exposed \<longleftrightarrow> x \<in> {JaxprInputEffect ''write'' 0, Effect ''debug''}" for x
    unfolding mem [rule_format] by (auto simp: j_def)
  then have "exposed = {JaxprInputEffect ''write'' 0, Effect ''debug''}"
    by (simp only: set_eq_iff) simp
  with run show ?thesis by (simp add: tr_def j_def)
qed

text \<open>
  Claim C7. When tracing the body raises \<open>e\<close>, run\_scoped raises the same \<open>e\<close> and
  the equations of the caller are as before: no run\_scoped equation is emitted.
\<close>

theorem run_scoped_trace_failure:
  fixes types :: "(type_spec, 'x) pytree list"
  assumes tr: "tr f (snd (tree_flatten (Node TupleNode [Node TupleNode types, dict_node kw_types])))
                 (map spec_get_aval
                    (fst (tree_flatten (Node TupleNode [Node TupleNode types, dict_node kw_types]))))
               = Inl e"
  shows "run_scoped tr f types kw_types st = (Inl e, st)
         \<and> emitted run_scoped_p (snd (run_scoped tr f types kw_types st)) = emitted run_scoped_p st"
  by (simp add: run_scoped_unfold tr)

theorem run_scoped_trace_failure_witness:
  "run_scoped (\<lambda>f td avals. Inl (OtherError [Text ''malformed operand usage'']))
      () [Leaf (SemaphoreSpec REGULAR)] [] ([] :: unit eqn list)
   = (Inl (OtherError [Text ''malformed operand usage'']), [])"
proof -
  define tr where "tr = (\<lambda>(f::unit) (td::unit treedef) (avals::aval list).
      (Inl (OtherError [Text ''malformed operand usage'']) :: py_error + jaxpr \<times> aval list \<times> val list))"
  have h: "tr () (snd (tree_flatten (Node TupleNode [Node TupleNode [Leaf (SemaphoreSpec REGULAR)], dict_node []])))
                 (map spec_get_aval
                    (fst (tree_flatten (Node TupleNode [Node TupleNode [Leaf (SemaphoreSpec REGULAR)], dict_node []]))))
               = Inl (OtherError [Text ''malformed operand usage''])"
    by (simp add: tr_def)
  from run_scoped_trace_failure
      [where tr = tr and f = "()" and types = "[Leaf (SemaphoreSpec REGULAR)]"
         and kw_types = "[]" and st = "[]", OF h]
  show ?thesis
    by (simp add: tr_def)
qed

subsection \<open>trace\<close>

lemma bind_trace_start:
  "bind trace_start_p [] (TraceStartParams message level) st =
     (Inr [], st @ [\<lparr>eqn_primitive = trace_start_p, eqn_invars = [],
                     eqn_params = TraceStartParams message level,
                     eqn_outvars = [], eqn_effects = {}\<rparr>])"
  by (simp add: bind_def abstract_eval_def trace_start_abstract_eval_def no_effects_def)

lemma bind_trace_stop:
  "bind trace_stop_p [] NoParams st =
     (Inr [], st @ [\<lparr>eqn_primitive = trace_stop_p, eqn_invars = [], eqn_params = NoParams,
                     eqn_outvars = [], eqn_effects = {}\<rparr>])"
  by (simp add: bind_def abstract_eval_def trace_stop_abstract_eval_def no_effects_def)

text \<open>
  Claim C6, as the code has it. Entering the scope emits one trace\_start equation, with
  no results and no effects, before the guarded region runs. When the region returns,
  one trace\_stop equation, with no results and no effects, follows what the region
  emitted, and the result of the region is returned. When the region raises, the
  exception is raised unchanged and the equations are those the region left: no
  trace\_stop is emitted. The rules of both primitives return no results and declare no
  effects.
\<close>

theorem trace_marker_emission:
  fixes body :: "('b, 'x) tracing"
  assumes body: "body (st @ [\<lparr>eqn_primitive = trace_start_p, eqn_invars = [],
                             eqn_params = TraceStartParams message level,
                             eqn_outvars = [], eqn_effects = {}\<rparr>]) = (r, st')"
  shows "abstract_eval trace_start_p [] (TraceStartParams message level :: 'x params) = Inr ([], {})
       \<and> abstract_eval trace_stop_p [] (NoParams :: 'x params) = Inr ([], {})
       \<and> (\<forall>v. r = Inr v \<longrightarrow>
             trace message level body st =
               (Inr v, st' @ [\<lparr>eqn_primitive = trace_stop_p, eqn_invars = [],
                               eqn_params = NoParams, eqn_outvars = [], eqn_effects = {}\<rparr>]))
       \<and> (\<forall>e. r = Inl e \<longrightarrow> trace message level body st = (Inl e, st'))"
proof (intro conjI allI impI)
  show "abstract_eval trace_start_p [] (TraceStartParams message level :: 'x params) = Inr ([], {})"
    by (simp add: abstract_eval_def trace_start_abstract_eval_def no_effects_def)
  show "abstract_eval trace_stop_p [] (NoParams :: 'x params) = Inr ([], {})"
    by (simp add: abstract_eval_def trace_stop_abstract_eval_def no_effects_def)
next
  fix v assume "r = Inr v"
  with body show "trace message level body st =
               (Inr v, st' @ [\<lparr>eqn_primitive = trace_stop_p, eqn_invars = [],
                               eqn_params = NoParams, eqn_outvars = [], eqn_effects = {}\<rparr>])"
    by (simp add: trace_def contextmanager_def bind_trace_start bind_trace_stop)
next
  fix e assume "r = Inl e"
  with body show "trace message level body st = (Inl e, st')"
    by (simp add: trace_def contextmanager_def bind_trace_start)
qed

theorem trace_marker_emission_witness:
  "trace ''region'' 10 device_id ([] :: unit eqn list) =
     (Inr [ShapedArray [] int32],
      [\<lparr>eqn_primitive = trace_start_p, eqn_invars = [],
         eqn_params = TraceStartParams ''region'' 10, eqn_outvars = [], eqn_effects = {}\<rparr>,
       \<lparr>eqn_primitive = device_id_p, eqn_invars = [], eqn_params = NoParams,
         eqn_outvars = [ShapedArray [] int32], eqn_effects = {}\<rparr>,
       \<lparr>eqn_primitive = trace_stop_p, eqn_invars = [],
         eqn_params = NoParams, eqn_outvars = [], eqn_effects = {}\<rparr>])"
proof -
  have h: "device_id ([] @ [\<lparr>eqn_primitive = trace_start_p, eqn_invars = [],
                             eqn_params = TraceStartParams ''region'' 10 :: unit params,
                             eqn_outvars = [], eqn_effects = {}\<rparr>])
           = (Inr [ShapedArray [] int32],
              [\<lparr>eqn_primitive = trace_start_p, eqn_invars = [],
                 eqn_params = TraceStartParams ''region'' 10, eqn_outvars = [], eqn_effects = {}\<rparr>,
               \<lparr>eqn_primitive = device_id_p, eqn_invars = [], eqn_params = NoParams,
                 eqn_outvars = [ShapedArray [] int32], eqn_effects = {}\<rparr>])"
    by (simp add: device_id_def bind_def abstract_eval_def device_id_abstract_eval_def no_effects_def)
  from trace_marker_emission [where body = device_id and st = "[]", OF h]
  show ?thesis by simp
qed

text \<open>
  Claim C6 as stated asks for a trace\_stop on every exit path. A region that raises
  leaves the trace\_start without a trace\_stop.
\<close>

theorem trace_stop_on_exception_counterexample:
  "emitted trace_start_p
     (snd (trace ''region'' 10 (\<lambda>st. (Inl (OtherError [Text ''boom'']) :: py_error + unit, st))
             ([] :: unit eqn list))) = 1
   \<and> emitted trace_stop_p
     (snd (trace ''region'' 10 (\<lambda>st. (Inl (OtherError [Text ''boom'']) :: py_error + unit, st))
             ([] :: unit eqn list))) = 0"
  by (simp add: trace_def contextmanager_def bind_trace_start emitted_def)

subsection \<open>semaphore\_signal and semaphore\_wait\<close>

lemma bind_semaphore_signal:
  "bind semaphore_signal_p (sem # v # rest) (HasDeviceIdParams h) st =
     (case semaphore_signal_abstract_eval (get_aval sem) (get_aval v) (map get_aval rest) h of
        Inl e \<Rightarrow> (Inl e, st)
      | Inr outs \<Rightarrow>
          (Inr outs, st @ [\<lparr>eqn_primitive = semaphore_signal_p, eqn_invars = sem # v # rest,
                            eqn_params = HasDeviceIdParams h, eqn_outvars = outs,
                            eqn_effects = {}\<rparr>]))"
  by (simp add: bind_def abstract_eval_def no_effects_def split: sum.splits)

lemma bind_semaphore_wait:
  "bind semaphore_wait_p [sem, v] NoParams st =
     (case semaphore_wait_abstract_eval (get_aval sem) (get_aval v) of
        Inl e \<Rightarrow> (Inl e, st)
      | Inr outs \<Rightarrow>
          (Inr outs, st @ [\<lparr>eqn_primitive = semaphore_wait_p, eqn_invars = [sem, v],
                            eqn_params = NoParams, eqn_outvars = outs,
                            eqn_effects = {}\<rparr>]))"
  by (simp add: bind_def abstract_eval_def no_effects_def split: sum.splits)

lemma signal_rule_rejects:
  assumes "\<not> is_AbstractSemaphore sa \<or> sem_type sa \<noteq> REGULAR
      \<or> aval_dtype va \<noteq> Inr int32
      \<or> (h \<and> (\<exists>da. ras = [da] \<and> aval_dtype da \<noteq> Inr int32))"
  shows "\<exists>e. semaphore_signal_abstract_eval sa va ras h = Inl e
           \<and> \<not> is_TypeError e
           \<and> ((\<exists>d. aval_dtype va = Inr d) \<and> (\<forall>da \<in> set ras. \<exists>d. aval_dtype da = Inr d)
                \<longrightarrow> is_ValueError e)"
proof (cases "\<not> is_AbstractSemaphore sa \<or> sem_type sa \<noteq> REGULAR")
  case True
  then show ?thesis
    by (auto simp: semaphore_signal_abstract_eval_def)
next
  case sem_ok: False
  show ?thesis
  proof (cases "aval_dtype va")
    case (Inl e)
    with sem_ok show ?thesis
      by (cases va) (auto simp: semaphore_signal_abstract_eval_def)
  next
    case (Inr d)
    show ?thesis
    proof (cases "d = int32")
      case False
      with sem_ok Inr show ?thesis
        by (auto simp: semaphore_signal_abstract_eval_def)
    next
      case True
      with assms sem_ok Inr obtain da where da: "h" "ras = [da]" "aval_dtype da \<noteq> Inr int32"
        by auto
      show ?thesis
      proof (cases "aval_dtype da")
        case (Inl e)
        with sem_ok Inr True da show ?thesis
          by (cases da) (auto simp: semaphore_signal_abstract_eval_def)
      next
        case (Inr d')
        with sem_ok \<open>aval_dtype va = Inr d\<close> True da show ?thesis
          by (auto simp: semaphore_signal_abstract_eval_def)
      qed
    qed
  qed
qed

lemma wait_rule_rejects:
  assumes "\<not> is_AbstractSemaphore sa \<or> sem_type sa \<noteq> REGULAR \<or> aval_dtype va \<noteq> Inr int32"
  shows "\<exists>e. semaphore_wait_abstract_eval sa va = Inl e
           \<and> \<not> is_TypeError e
           \<and> ((\<exists>d. aval_dtype va = Inr d) \<longrightarrow> is_ValueError e)"
proof (cases "\<not> is_AbstractSemaphore sa \<or> sem_type sa \<noteq> REGULAR")
  case True
  then show ?thesis
    by (auto simp: semaphore_wait_abstract_eval_def)
next
  case sem_ok: False
  with assms show ?thesis
    by (cases va) (auto simp: semaphore_wait_abstract_eval_def)
qed

text \<open>
  Claim C4, as the code has it. When the semaphore operand is not a semaphore, or its
  kind is not REGULAR, or the increment (decrement) operand is not of element type int32,
  or has\_device\_id is set and the device\_id operand is not of element type int32,
  binding semaphore\_signal (semaphore\_wait) raises and the equations are as before:
  nothing is emitted. The exception is never a TypeError; it is a ValueError whenever
  the increment (decrement) and device\_id operands have an element type at all.
\<close>

theorem semaphore_validation_ValueError:
  "(\<not> is_AbstractSemaphore (get_aval sem) \<or> sem_type (get_aval sem) \<noteq> REGULAR
      \<or> aval_dtype (get_aval v) \<noteq> Inr int32
      \<or> (h \<and> (\<exists>dev. rest = [dev] \<and> aval_dtype (get_aval dev) \<noteq> Inr int32))
    \<longrightarrow> (\<exists>e. bind semaphore_signal_p (sem # v # rest) (HasDeviceIdParams h) st = (Inl e, st)
           \<and> \<not> is_TypeError e
           \<and> ((\<exists>d. aval_dtype (get_aval v) = Inr d)
                \<and> (\<forall>dev \<in> set rest. \<exists>d. aval_dtype (get_aval dev) = Inr d)
                \<longrightarrow> is_ValueError e)))
   \<and> (\<not> is_AbstractSemaphore (get_aval sem) \<or> sem_type (get_aval sem) \<noteq> REGULAR
      \<or> aval_dtype (get_aval v) \<noteq> Inr int32
    \<longrightarrow> (\<exists>e. bind semaphore_wait_p [sem, v] NoParams st = (Inl e, st)
           \<and> \<not> is_TypeError e
           \<and> ((\<exists>d. aval_dtype (get_aval v) = Inr d) \<longrightarrow> is_ValueError e)))"
proof (intro conjI impI)
  assume bad: "\<not> is_AbstractSemaphore (get_aval sem) \<or> sem_type (get_aval sem) \<noteq> REGULAR
      \<or> aval_dtype (get_aval v) \<noteq> Inr int32
      \<or> (h \<and> (\<exists>dev. rest = [dev] \<and> aval_dtype (get_aval dev) \<noteq> Inr int32))"
  then have "\<not> is_AbstractSemaphore (get_aval sem) \<or> sem_type (get_aval sem) \<noteq> REGULAR
      \<or> aval_dtype (get_aval v) \<noteq> Inr int32
      \<or> (h \<and> (\<exists>da. map get_aval rest = [da] \<and> aval_dtype da \<noteq> Inr int32))"
    by auto
  from signal_rule_rejects [OF this] obtain e where
    e: "semaphore_signal_abstract_eval (get_aval sem) (get_aval v) (map get_aval rest) h = Inl e"
       "\<not> is_TypeError e"
       "(\<exists>d. aval_dtype (get_aval v) = Inr d)
          \<and> (\<forall>da \<in> set (map get_aval rest). \<exists>d. aval_dtype da = Inr d) \<longrightarrow> is_ValueError e"
    by blast
  show "\<exists>e. bind semaphore_signal_p (sem # v # rest) (HasDeviceIdParams h) st = (Inl e, st)
           \<and> \<not> is_TypeError e
           \<and> ((\<exists>d. aval_dtype (get_aval v) = Inr d)
                \<and> (\<forall>dev \<in> set rest. \<exists>d. aval_dtype (get_aval dev) = Inr d)
                \<longrightarrow> is_ValueError e)"
    using e by (intro exI [of _ e]) (simp add: bind_semaphore_signal)
next
  assume bad: "\<not> is_AbstractSemaphore (get_aval sem) \<or> sem_type (get_aval sem) \<noteq> REGULAR
      \<or> aval_dtype (get_aval v) \<noteq> Inr int32"
  from wait_rule_rejects [OF this] obtain e where
    e: "semaphore_wait_abstract_eval (get_aval sem) (get_aval v) = Inl e"
       "\<not> is_TypeError e"
       "(\<exists>d. aval_dtype (get_aval v) = Inr d) \<longrightarrow> is_ValueError e"
    by blast
  show "\<exists>e. bind semaphore_wait_p [sem, v] NoParams st = (Inl e, st)
           \<and> \<not> is_TypeError e
           \<and> ((\<exists>d. aval_dtype (get_aval v) = Inr d) \<longrightarrow> is_ValueError e)"
    using e by (intro exI [of _ e]) (simp add: bind_semaphore_wait)
qed

theorem semaphore_validation_ValueError_witness:
  "(\<exists>e. bind semaphore_signal_p
            [Tracer 0 (AbstractSemaphore DMA), Tracer 1 (ShapedArray [] int32)]
            (HasDeviceIdParams False) ([] :: unit eqn list) = (Inl e, [])
        \<and> \<not> is_TypeError e \<and> is_ValueError e)
   \<and> (\<exists>e. bind semaphore_wait_p
            [Tracer 0 (AbstractSemaphore DMA), Tracer 1 (ShapedArray [] int32)]
            NoParams ([] :: unit eqn list) = (Inl e, [])
        \<and> \<not> is_TypeError e \<and> is_ValueError e)"
  using semaphore_validation_ValueError
    [where sem = "Tracer 0 (AbstractSemaphore DMA)" and v = "Tracer 1 (ShapedArray [] int32)"
       and h = False and rest = "[]" and st = "[] :: unit eqn list"]
  by simp

text \<open>
  Claim C4 as stated names a TypeError. Signalling a value that is not a semaphore, and
  waiting on a semaphore of kind DMA, raise ValueError.
\<close>

theorem semaphore_validation_TypeError_counterexample:
  "bind semaphore_signal_p
     [Tracer 0 (ShapedArray [] int32), Tracer 1 (ShapedArray [] int32)]
     (HasDeviceIdParams False) ([] :: unit eqn list)
   = (Inl (ValueError [Text ''Cannot signal on a non-semaphore value: '',
                       Fmt (ShapedArray [] int32)]), [])
   \<and> \<not> is_TypeError (ValueError [Text ''Cannot signal on a non-semaphore value: '',
                                  Fmt (ShapedArray [] int32)])
   \<and> bind semaphore_wait_p
     [Tracer 0 (AbstractSemaphore DMA), Tracer 1 (ShapedArray [] int32)]
     NoParams ([] :: unit eqn list)
   = (Inl (ValueError [Text ''Must wait a REGULAR semaphore.'']), [])
   \<and> \<not> is_TypeError (ValueError [Text ''Must wait a REGULAR semaphore.''])"
  by (simp add: bind_semaphore_signal bind_semaphore_wait semaphore_signal_abstract_eval_def
      semaphore_wait_abstract_eval_def)

text \<open>
  Claim C5, as the code has it. Binding semaphore\_signal with a REGULAR semaphore and a
  value operand whose element type is not int32 raises the ValueError
  \<open>Must signal an int32 value.\<close>, and binding semaphore\_wait with such operands
  raises a ValueError, the equations being as before. The wrappers semaphore\_signal and
  semaphore\_wait first convert the increment (decrement) with jnp.asarray to int32.
  When the conversion raises, the wrapper raises the same exception and binds nothing.
  When it returns an operand of element type int32, the wrapper binds that operand:
  with a REGULAR semaphore (and a device\_id of element type int32, if one is given) the
  one equation is emitted and nothing is raised, whatever the element type of the value
  handed to the wrapper was.
\<close>

theorem semaphore_dtype_check_at_bind:
  fixes asarray :: "'n \<Rightarrow> dtype \<Rightarrow> (val, 'x) tracing"
  assumes sem: "get_aval sem = AbstractSemaphore REGULAR"
    and v: "aval_dtype (get_aval v) = Inr d" "d \<noteq> int32"
    and dev: "\<forall>dev. dev_opt = Some dev \<longrightarrow> aval_dtype (get_aval dev) = Inr int32"
  shows "bind semaphore_signal_p (sem # v # rest) (HasDeviceIdParams h) st
           = (Inl (ValueError [Text ''Must signal an int32 value.'']), st)
       \<and> (\<exists>m. bind semaphore_wait_p [sem, v] NoParams st = (Inl (ValueError m), st))
       \<and> (\<forall>e st1. asarray inc int32 st = (Inl e, st1) \<longrightarrow>
             semaphore_signal asarray sem inc dev_opt st = (Inl e, st1)
             \<and> semaphore_wait asarray sem inc st = (Inl e, st1))
       \<and> (\<forall>inc' st1.
             asarray inc int32 st = (Inr inc', st1) \<and> aval_dtype (get_aval inc') = Inr int32 \<longrightarrow>
             semaphore_signal asarray sem inc dev_opt st
               = (Inr (), st1 @ [\<lparr>eqn_primitive = semaphore_signal_p,
                                   eqn_invars = sem # inc' # (case dev_opt of None \<Rightarrow> []
                                                              | Some dev \<Rightarrow> [dev]),
                                   eqn_params = HasDeviceIdParams (dev_opt \<noteq> None),
                                   eqn_outvars = [], eqn_effects = {}\<rparr>])
             \<and> semaphore_wait asarray sem inc st
               = (Inr (), st1 @ [\<lparr>eqn_primitive = semaphore_wait_p, eqn_invars = [sem, inc'],
                                   eqn_params = NoParams, eqn_outvars = [],
                                   eqn_effects = {}\<rparr>]))"
proof (intro conjI allI impI)
  show "bind semaphore_signal_p (sem # v # rest) (HasDeviceIdParams h) st
           = (Inl (ValueError [Text ''Must signal an int32 value.'']), st)"
    using sem v by (simp add: bind_semaphore_signal semaphore_signal_abstract_eval_def)
  show "\<exists>m. bind semaphore_wait_p [sem, v] NoParams st = (Inl (ValueError m), st)"
    using sem v by (simp add: bind_semaphore_wait semaphore_wait_abstract_eval_def)
next
  fix e st1
  assume "asarray inc int32 st = (Inl e, st1)"
  then show "semaphore_signal asarray sem inc dev_opt st = (Inl e, st1)"
    and "semaphore_wait asarray sem inc st = (Inl e, st1)"
    by (simp_all add: semaphore_signal_def semaphore_wait_def)
next
  fix inc' st1
  assume conv: "asarray inc int32 st = (Inr inc', st1) \<and> aval_dtype (get_aval inc') = Inr int32"
  show "semaphore_signal asarray sem inc dev_opt st
               = (Inr (), st1 @ [\<lparr>eqn_primitive = semaphore_signal_p,
                                   eqn_invars = sem # inc' # (case dev_opt of None \<Rightarrow> []
                                                              | Some dev \<Rightarrow> [dev]),
                                   eqn_params = HasDeviceIdParams (dev_opt \<noteq> None),
                                   eqn_outvars = [], eqn_effects = {}\<rparr>])"
    using sem dev conv
    by (cases dev_opt)
       (simp_all add: semaphore_signal_def Let_def bind_semaphore_signal
          semaphore_signal_abstract_eval_def)
  show "semaphore_wait asarray sem inc st
               = (Inr (), st1 @ [\<lparr>eqn_primitive = semaphore_wait_p, eqn_invars = [sem, inc'],
                                   eqn_params = NoParams, eqn_outvars = [],
                                   eqn_effects = {}\<rparr>])"
    using sem conv
    by (simp add: semaphore_wait_def bind_semaphore_wait semaphore_wait_abstract_eval_def)
qed

theorem semaphore_dtype_check_at_bind_witness:
  "bind semaphore_signal_p
     [Tracer 0 (AbstractSemaphore REGULAR), Tracer 1 (ShapedArray [] float32)]
     (HasDeviceIdParams False) ([] :: unit eqn list)
   = (Inl (ValueError [Text ''Must signal an int32 value.'']), [])
   \<and> (\<exists>m. bind semaphore_wait_p
            [Tracer 0 (AbstractSemaphore REGULAR), Tracer 1 (ShapedArray [] float32)]
            NoParams ([] :: unit eqn list) = (Inl (ValueError m), []))
   \<and> semaphore_signal asarray_traced (Tracer 0 (AbstractSemaphore REGULAR))
        (Array 1 [] float32) None ([] :: unit eqn list)
       = (Inr (), [\<lparr>eqn_primitive = semaphore_signal_p,
                     eqn_invars = [Tracer 0 (AbstractSemaphore REGULAR),
                                   Tracer 1 (ShapedArray [] int32)],
                     eqn_params = HasDeviceIdParams False,
                     eqn_outvars = [], eqn_effects = {}\<rparr>])
   \<and> semaphore_wait asarray_traced (Tracer 0 (AbstractSemaphore REGULAR))
        (Array 1 [] float32) ([] :: unit eqn list)
       = (Inr (), [\<lparr>eqn_primitive = semaphore_wait_p,
                     eqn_invars = [Tracer 0 (AbstractSemaphore REGULAR),
                                   Tracer 1 (ShapedArray [] int32)],
                     eqn_params = NoParams, eqn_outvars = [], eqn_effects = {}\<rparr>])
   \<and> semaphore_signal (\<lambda>x dt st. (Inl (ValueError [Text ''cannot convert float NaN to integer'']), st))
        (Tracer 0 (AbstractSemaphore REGULAR)) () None ([] :: unit eqn list)
       = (Inl (ValueError [Text ''cannot convert float NaN to integer'']), [])"
proof -
  have sem: "get_aval (Tracer 0 (AbstractSemaphore REGULAR)) = AbstractSemaphore REGULAR"
    by simp
  have v: "aval_dtype (get_aval (Tracer 1 (ShapedArray [] float32))) = Inr float32"
    "float32 \<noteq> int32"
    by simp_all
  have dev: "\<forall>dev. (None :: val option) = Some dev \<longrightarrow> aval_dtype (get_aval dev) = Inr int32"
    by simp
  note ok = semaphore_dtype_check_at_bind
    [where asarray = "asarray_traced :: array \<Rightarrow> dtype \<Rightarrow> (val, unit) tracing"
       and inc = "Array 1 [] float32" and rest = "[]" and h = False and st = "[]",
     OF sem v dev]
  note bad = semaphore_dtype_check_at_bind
    [where asarray = "\<lambda>(x::unit) (dt::dtype) (st::unit eqn list).
                        (Inl (ValueError [Text ''cannot convert float NaN to integer''])
                           :: py_error + val, st)"
       and inc = "()" and rest = "[]" and h = False and st = "[]",
     OF sem v dev]
  have conv: "asarray_traced (Array 1 [] float32) int32 ([] :: unit eqn list)
                = (Inr (Tracer 1 (ShapedArray [] int32)), [])
              \<and> aval_dtype (get_aval (Tracer 1 (ShapedArray [] int32))) = Inr int32"
    by simp
  from ok conv bad show ?thesis
    by simp
qed

text \<open>
  Claim C5 as stated has every call of signal or wait with a value that is not an int32
  rejected. A traced float32 increment handed to semaphore\_signal, or decrement handed
  to semaphore\_wait, is converted and accepted.
\<close>

theorem semaphore_float_increment_counterexample:
  "fst (semaphore_signal asarray_traced (Tracer 0 (AbstractSemaphore REGULAR))
          (Array 1 [] float32) None ([] :: unit eqn list)) = Inr ()
   \<and> fst (semaphore_wait asarray_traced (Tracer 0 (AbstractSemaphore REGULAR))
          (Array 1 [] float32) ([] :: unit eqn list)) = Inr ()"
  by (simp add: semaphore_signal_def semaphore_wait_def Let_def bind_semaphore_signal
      bind_semaphore_wait semaphore_signal_abstract_eval_def semaphore_wait_abstract_eval_def)

subsection \<open>dma\_start, remote\_dma\_start and the futures\<close>

lemma bind_dma_start:
  "bind dma_start_p args (TreeParams td) st =
     (Inr [], st @ [\<lparr>eqn_primitive = dma_start_p, eqn_invars = args, eqn_params = TreeParams td,
                     eqn_outvars = [], eqn_effects = {}\<rparr>])"
  by (simp add: bind_def abstract_eval_def dma_start_abstract_eval_def no_effects_def)

lemma bind_dma_wait:
  "bind dma_wait_p args (TreeParams td) st =
     (Inr [], st @ [\<lparr>eqn_primitive = dma_wait_p, eqn_invars = args, eqn_params = TreeParams td,
                     eqn_outvars = [], eqn_effects = {}\<rparr>])"
  by (simp add: bind_def abstract_eval_def dma_wait_abstract_eval_def no_effects_def)

lemma dma_start_unfold:
  assumes "val_shape src_ref = Inr src_shape" and "fis src_indices src_shape = Inr src_indexer"
    and "val_shape dst_ref = Inr dst_shape" and "fis dst_indices dst_shape = Inr dst_indexer"
  shows "dma_start fis src_ref src_indices dst_ref dst_indices sem st =
     (Inr \<lparr>flat_args = fst (tree_flatten (Node TupleNode [Leaf sem, Leaf dst_ref, dst_indexer])),
           tree = snd (tree_flatten (Node TupleNode [Leaf sem, Leaf dst_ref, dst_indexer]))\<rparr>,
      st @ [\<lparr>eqn_primitive = dma_start_p,
             eqn_invars = fst (tree_flatten (Node TupleNode
                 [Leaf src_ref, src_indexer, Leaf dst_ref, dst_indexer, Leaf sem, py_None, py_None])),
             eqn_params = TreeParams (snd (tree_flatten (Node TupleNode
                 [Leaf src_ref, src_indexer, Leaf dst_ref, dst_indexer, Leaf sem, py_None, py_None]))),
             eqn_outvars = [], eqn_effects = {}\<rparr>])"
  using assms by (simp add: dma_start_def Let_def case_prod_beta bind_dma_start)


text \<open>
  Claim C2. When both references have a shape and the index expressions fit them (the
  region descriptors are built), dma\_start emits one dma\_start equation and returns a
  future; rebuilding the stored operands of the future with its structural descriptor
  gives exactly the tuple (semaphore, destination reference, destination region); and
  wait on the future does not raise: it emits one dma\_wait equation over the stored
  operands and the descriptor.
\<close>

theorem dma_start_wait_roundtrip:
  assumes "val_shape src_ref = Inr src_shape" and "fis src_indices src_shape = Inr src_indexer"
    and "val_shape dst_ref = Inr dst_shape" and "fis dst_indices dst_shape = Inr dst_indexer"
  shows "\<exists>fut e.
       dma_start fis src_ref src_indices dst_ref dst_indices sem st = (Inr fut, st @ [e])
     \<and> eqn_primitive e = dma_start_p
     \<and> tree_unflatten (tree fut) (flat_args fut)
         = Inr (Node TupleNode [Leaf sem, Leaf dst_ref, dst_indexer])
     \<and> wait fut (st @ [e])
         = (Inr (), st @ [e, \<lparr>eqn_primitive = dma_wait_p, eqn_invars = flat_args fut,
                               eqn_params = TreeParams (tree fut), eqn_outvars = [],
                               eqn_effects = {}\<rparr>])"
proof (intro exI conjI)
  show "dma_start fis src_ref src_indices dst_ref dst_indices sem st =
     (Inr \<lparr>flat_args = fst (tree_flatten (Node TupleNode [Leaf sem, Leaf dst_ref, dst_indexer])),
           tree = snd (tree_flatten (Node TupleNode [Leaf sem, Leaf dst_ref, dst_indexer]))\<rparr>,
      st @ [\<lparr>eqn_primitive = dma_start_p,
             eqn_invars = fst (tree_flatten (Node TupleNode
                 [Leaf src_ref, src_indexer, Leaf dst_ref, dst_indexer, Leaf sem, py_None, py_None])),
             eqn_params = TreeParams (snd (tree_flatten (Node TupleNode
                 [Leaf src_ref, src_indexer, Leaf dst_ref, dst_indexer, Leaf sem, py_None, py_None]))),
             eqn_outvars = [], eqn_effects = {}\<rparr>])"
    by (rule dma_start_unfold) (fact assms)+
qed (simp_all add: tree_unflatten_flatten wait_def bind_dma_wait)

theorem dma_start_wait_roundtrip_witness:
  "\<exists>fut e.
     dma_start NDIndexer_from_indices_shape
       (Tracer 0 (AbstractRef [2, 8] float32))
       [DynIndex (Tracer 3 (ShapedArray [] int32)), SliceIndex 0 8]
       (Tracer 1 (AbstractRef [8] float32)) [SliceIndex 0 8]
       (Tracer 2 (AbstractSemaphore DMA)) [] = (Inr fut, [e])
   \<and> tree_unflatten (tree fut) (flat_args fut)
       = Inr (Node TupleNode [Leaf (Tracer 2 (AbstractSemaphore DMA)),
                              Leaf (Tracer 1 (AbstractRef [8] float32)),
                              Node (CustomNode ([StaticSlice 0 8], [8])) []])
   \<and> fst (wait fut [e]) = Inr ()"
proof -
  have h1: "val_shape (Tracer 0 (AbstractRef [2, 8] float32)) = Inr [2, 8]"
    by (simp add: val_shape_def)
  have h2: "NDIndexer_from_indices_shape
              [DynIndex (Tracer 3 (ShapedArray [] int32)), SliceIndex 0 8] [2, 8]
            = Inr (Node (CustomNode ([Dynamic, StaticSlice 0 8], [2, 8]))
                     [Leaf (Tracer 3 (ShapedArray [] int32))])"
    by (simp add: NDIndexer_from_indices_shape_def)
  have h3: "val_shape (Tracer 1 (AbstractRef [8] float32)) = Inr [8]"
    by (simp add: val_shape_def)
  have h4: "NDIndexer_from_indices_shape [SliceIndex 0 8] [8]
            = Inr (Node (CustomNode ([StaticSlice 0 8], [8])) [])"
    by (simp add: NDIndexer_from_indices_shape_def)
  from dma_start_wait_roundtrip
         [where fis = NDIndexer_from_indices_shape and sem = "Tracer 2 (AbstractSemaphore DMA)"
            and st = "[]", OF h1 h2 h3 h4]
  obtain fut e where
    "dma_start NDIndexer_from_indices_shape
       (Tracer 0 (AbstractRef [2, 8] float32))
       [DynIndex (Tracer 3 (ShapedArray [] int32)), SliceIndex 0 8]
       (Tracer 1 (AbstractRef [8] float32)) [SliceIndex 0 8]
       (Tracer 2 (AbstractSemaphore DMA)) [] = (Inr fut, [] @ [e])"
    "tree_unflatten (tree fut) (flat_args fut)
       = Inr (Node TupleNode [Leaf (Tracer 2 (AbstractSemaphore DMA)),
                              Leaf (Tracer 1 (AbstractRef [8] float32)),
                              Node (CustomNode ([StaticSlice 0 8], [8])) []])"
    "wait fut ([] @ [e])
         = (Inr (), [] @ [e, \<lparr>eqn_primitive = dma_wait_p, eqn_invars = flat_args fut,
                               eqn_params = TreeParams (tree fut), eqn_outvars = [],
                               eqn_effects = {}\<rparr>])"
    by (elim exE conjE)
  then show ?thesis
    by (intro exI [of _ fut] exI [of _ e]) simp
qed




end
